theory Spec2Isabelle
  imports Complex_Main
begin

section \<open>Python values and errors\<close>

text \<open>
  Every exception the modelled code can raise is a value of \<open>error\<close>; a method that can
  raise returns \<open>error + 'a\<close> with \<open>Inl\<close> for the raise.  Python floats are modelled as
  reals, Python ints as \<open>int\<close> (or \<open>nat\<close> where the code only ever produces a count).
\<close>

datatype error =
    ValueError
  | TypeError
  | IndexError
  | KeyError
  | AttributeError
  | ZeroDivisionError
  | NoteSequenceInvalidAppendException

text \<open>Sequencing of calls that may raise: the first raise wins.\<close>

definition bind_err :: "error + 'a \<Rightarrow> ('a \<Rightarrow> error + 'b) \<Rightarrow> error + 'b" where
  "bind_err r f = (case r of Inl e \<Rightarrow> Inl e | Inr x \<Rightarrow> f x)"

fun map_err :: "('a \<Rightarrow> error + 'b) \<Rightarrow> 'a list \<Rightarrow> error + 'b list" where
  "map_err f [] = Inr []"
| "map_err f (x # xs) =
     bind_err (f x) (\<lambda>y. bind_err (map_err f xs) (\<lambda>ys. Inr (y # ys)))"

text \<open>
  Subscription \<open>xs[i]\<close> of a Python list or of the first axis of a numpy array: an index
  from \<open>-len(xs)\<close> up to \<open>-1\<close> is taken from the end, an index outside
  \<open>[-len(xs), len(xs))\<close> raises.
\<close>

definition py_index :: "'a list \<Rightarrow> int \<Rightarrow> error + 'a" where
  "py_index xs i =
     (if 0 \<le> i \<and> i < int (length xs) then Inr (xs ! nat i)
      else if i < 0 \<and> - int (length xs) \<le> i then Inr (xs ! nat (int (length xs) + i))
      else Inl IndexError)"

section \<open>aleatoric/measure.py: NoteDur, Meter.quantize\<close>

text \<open>
  The members of the enumeration \<open>NoteDur\<close>.  The seven underscore names are the members;
  \<open>WHL\<close>, \<open>WHOLE\<close>, \<open>HLF\<close>, ... are aliases of them (an \<open>Enum\<close> name bound to a value
  that is already taken is an alias), defined below as abbreviations.
\<close>

datatype NoteDur = D_1_0 | D_0_5 | D_0_25 | D_0_125 | D_0_00625 | D_0_0003125 | D_0_000015625

abbreviation "WHOLE \<equiv> D_1_0"
abbreviation "HALF \<equiv> D_0_5"
abbreviation "QUARTER \<equiv> D_0_25"
abbreviation "EIGHTH \<equiv> D_0_125"
abbreviation "SIXTEENTH \<equiv> D_0_00625"
abbreviation "THIRTYSECOND \<equiv> D_0_0003125"
abbreviation "SIXTYFOURTH \<equiv> D_0_000015625"

fun NoteDur_value :: "NoteDur \<Rightarrow> real" where
  "NoteDur_value D_1_0 = 1"
| "NoteDur_value D_0_5 = 5 / 10"
| "NoteDur_value D_0_25 = 25 / 100"
| "NoteDur_value D_0_125 = 125 / 1000"
| "NoteDur_value D_0_00625 = 625 / 100000"
| "NoteDur_value D_0_0003125 = 3125 / 10000000"
| "NoteDur_value D_0_000015625 = 15625 / 1000000000"

text \<open>The property the specification states of a member: its value is \<open>1 / 2^k\<close>, \<open>k \<le> 6\<close>.\<close>

definition power_of_two_fraction :: "real \<Rightarrow> bool" where
  "power_of_two_fraction v = (v \<in> set (map (\<lambda>k. 1 / 2 ^ k) [0 ..< 7]))"

text \<open>The fields of a \<open>CSoundNote\<close> that \<open>Meter.quantize\<close> reads and writes (\<open>dur\<close> and
  \<open>duration\<close> are two properties over the one field \<open>_duration\<close>).\<close>

record CSoundNote =
  cs_instrument :: int
  cs_start :: real
  cs_duration :: real
  cs_amplitude :: int
  cs_pitch :: real

record Meter =
  beats_per_measure :: int
  beat_length :: NoteDur
  quantizing :: bool

text \<open>
  Modelled from the spec: \<open>NoteSequence.dup\<close> of the aleatoric package is not among the
  sources.  The specification has quantize "operate on a copy of the input sequence,
  leaving the original untouched": the copy holds fresh notes with the same field values.
\<close>

definition dup :: "CSoundNote list \<Rightarrow> CSoundNote list" where
  "dup note_list = map (\<lambda>n. n) note_list"

text \<open>One turn of the loop of \<open>quantize\<close> on a note of the copy.\<close>

definition quantize_note :: "real \<Rightarrow> CSoundNote \<Rightarrow> CSoundNote" where
  "quantize_note note_adj_factor note =
     (let new_duration = cs_duration note * note_adj_factor;
          note1 = (if cs_start note > 0
                   then note\<lparr>cs_start := cs_start note + (new_duration - cs_duration note)\<rparr>
                   else note)
      in note1\<lparr>cs_duration := new_duration\<rparr>)"

definition notes_duration :: "CSoundNote list \<Rightarrow> real" where
  "notes_duration note_list = sum_list (map cs_duration note_list)"

text \<open>
  \<open>Meter.quantize(note_sequence, measure_duration)\<close>.  The method returns nothing; the
  model returns what the call leaves behind: first the notes of the sequence that was
  passed in, then the notes of the local \<open>new_note_sequence\<close> when one was built.
  The division raises when the durations sum to zero.
\<close>

definition quantize ::
  "Meter \<Rightarrow> CSoundNote list \<Rightarrow> real \<Rightarrow> error + (CSoundNote list \<times> CSoundNote list option)" where
  "quantize self note_list measure_duration =
     (if quantizing self then
        (if notes_duration note_list = measure_duration then Inr (note_list, None)
         else if notes_duration note_list = 0 then Inl ZeroDivisionError
         else
           (let note_adj_factor = measure_duration / notes_duration note_list;
                new_note_sequence = dup note_list
            in Inr (note_list, Some (map (quantize_note note_adj_factor) new_note_sequence))))
      else Inr (note_list, None))"

text \<open>The example of the specification: four notes of duration 0.5 on the quarter beats.\<close>

definition example_note :: "real \<Rightarrow> CSoundNote" where
  "example_note s =
     \<lparr>cs_instrument = 1, cs_start = s, cs_duration = 1 / 2, cs_amplitude = 100, cs_pitch = 901 / 100\<rparr>"

definition example_notes :: "CSoundNote list" where
  "example_notes = map example_note [0, 1 / 4, 1 / 2, 3 / 4]"

definition example_meter :: Meter where
  "example_meter = \<lparr>beats_per_measure = 4, beat_length = QUARTER, quantizing = True\<rparr>"

section \<open>numpy arrays as note_sequence.py uses them\<close>

text \<open>
  The table of a sequence is a numpy array: one-dimensional (\<open>Arr1\<close>) or two-dimensional
  with its column count and its rows (\<open>Arr2\<close>).  Only the operations the sources call are
  modelled, with numpy's behaviour for the shapes that can reach them.
\<close>

datatype ndarray = Arr1 "real list" | Arr2 nat "real list list"

text \<open>
  \<open>np.array([[0.0] * num_attributes for _ in range(num_notes)])\<close>: an empty list of rows
  gives a one-dimensional array of shape \<open>(0,)\<close>.
\<close>

definition np_array :: "nat \<Rightarrow> nat \<Rightarrow> ndarray" where
  "np_array num_notes num_attributes =
     (if num_notes = 0 then Arr1 []
      else Arr2 num_attributes (replicate num_notes (replicate num_attributes 0)))"

fun len_ndarray :: "ndarray \<Rightarrow> nat" where
  "len_ndarray (Arr1 xs) = length xs"
| "len_ndarray (Arr2 c rs) = length rs"

fun shape :: "ndarray \<Rightarrow> nat list" where
  "shape (Arr1 xs) = [length xs]"
| "shape (Arr2 c rs) = [length rs, c]"

text \<open>An argument of a numpy call: an integer or an array.\<close>

datatype py_arg = PyInt int | PyArray ndarray

fun is_PyInt :: "py_arg \<Rightarrow> bool" where
  "is_PyInt (PyInt n) = True"
| "is_PyInt (PyArray a) = False"

text \<open>
  The method \<open>ndarray.resize(*new_shape)\<close> resizes in place and returns \<open>None\<close> (the unit
  value here); a dimension that is not an integer is a \<open>TypeError\<close>.
\<close>

definition ndarray_resize :: "ndarray \<Rightarrow> py_arg list \<Rightarrow> error + unit" where
  "ndarray_resize a new_shape = (if list_all is_PyInt new_shape then Inr () else Inl TypeError)"

text \<open>\<open>np.concatenate((a, b))\<close> along the first axis.\<close>

fun np_concatenate :: "ndarray \<Rightarrow> ndarray \<Rightarrow> error + ndarray" where
  "np_concatenate (Arr1 xs) (Arr1 ys) = Inr (Arr1 (xs @ ys))"
| "np_concatenate (Arr2 c rs) (Arr2 c' rs') =
     (if c = c' then Inr (Arr2 c (rs @ rs')) else Inl ValueError)"
| "np_concatenate a b = Inl ValueError"

text \<open>
  \<open>np.insert(arr, obj, values, axis=0)\<close> with an integer \<open>obj\<close>: \<open>values\<close> is raised to the
  dimension of \<open>arr\<close>, its first axis gives the number of new entries, and it is
  broadcast into the slice that receives it.
\<close>

fun rows_for_insert :: "nat \<Rightarrow> ndarray \<Rightarrow> error + real list list" where
  "rows_for_insert c (Arr2 c' vs) =
     (if c' = c then Inr vs
      else if c' = 1 \<and> list_all (\<lambda>r. length r = 1) vs
        then Inr (map (\<lambda>r. replicate c (r ! 0)) vs)
      else Inl ValueError)"
| "rows_for_insert c (Arr1 ys) =
     (if length ys = c then Inr [ys]
      else if length ys = 1 then Inr [replicate c (ys ! 0)]
      else Inl ValueError)"

fun scalars_for_insert :: "ndarray \<Rightarrow> error + real list" where
  "scalars_for_insert (Arr1 ys) = Inr ys"
| "scalars_for_insert (Arr2 c' vs) =
     (if length vs = 1 \<and> c' = 1 \<and> length (vs ! 0) = 1 then Inr [vs ! 0 ! 0]
      else Inl ValueError)"

definition np_insert :: "ndarray \<Rightarrow> int \<Rightarrow> ndarray \<Rightarrow> error + ndarray" where
  "np_insert arr obj vals =
     (let N = int (len_ndarray arr) in
      if obj < - N \<or> obj > N then Inl IndexError
      else
        (let k = nat (if obj < 0 then obj + N else obj) in
         case arr of
           Arr2 c rs \<Rightarrow>
             bind_err (rows_for_insert c vals) (\<lambda>new. Inr (Arr2 c (take k rs @ new @ drop k rs)))
         | Arr1 xs \<Rightarrow>
             bind_err (scalars_for_insert vals) (\<lambda>new. Inr (Arr1 (take k xs @ new @ drop k xs)))))"


section \<open>omnisound/note/adapters/note.py: Note\<close>

text \<open>
  \<open>attr_map\<close> is the dictionary from attribute names to column indices, in insertion
  order.  A \<open>Note\<close> holds its array \<open>_attrs\<close> (a row of a table, or whatever else it was
  built on), its dictionary \<open>_attr_name_idx_map\<close> and its row number.
\<close>

type_synonym attr_map = "(string \<times> nat) list"

datatype Note = Note (attrs: attrs_arg) (attr_name_idx_map: attr_map) (row_num: "int option")
and attrs_arg = Row "real list" | Scalar real | NoteObj Note | NoneObj

text \<open>
  The column of the start time, which measure.py imports as \<open>START_I\<close> (note.py has it
  as \<open>START = 1\<close>), and the dictionary of \<open>RestNote\<close>, built by enumerating its names.
\<close>

definition START_I :: nat where
  "START_I = 1"

definition ATTR_NAMES :: "string list" where
  "ATTR_NAMES = [''instrument'', ''start'', ''dur'', ''amp'', ''pitch'']"

definition ATTR_NAME_IDX_MAP :: attr_map where
  "ATTR_NAME_IDX_MAP = map (\<lambda>(i, attr_name). (attr_name, i)) (enumerate 0 ATTR_NAMES)"

text \<open>
  The classes of notes among the sources, and the call \<open>note_cls(attrs=...,
  attr_name_index_map=..., default_attr_vals_map=..., row_num=...)\<close> that
  \<open>_get_note_for_index\<close> makes.  \<open>Note\<close> is an abstract base class: it declares
  \<open>transpose\<close>, \<open>performance_attrs\<close>, \<open>pa\<close>, \<open>get_pitch_for_key\<close>, \<open>copy\<close>, \<open>__eq__\<close>
  and \<open>__str__\<close> abstract.  \<open>RestNote\<close> derives from it and defines all of them but
  \<open>copy\<close>.  A class that is left with an abstract method cannot be instantiated, so for
  either class the call raises \<open>TypeError\<close> before any \<open>__init__\<close> runs.  (Neither
  \<open>__init__\<close> would take the call: \<open>RestNote.__init__\<close> has none of the four keywords, and
  \<open>Note.__init__\<close> asks for the truth value of the row in \<open>attrs or zeros(...)\<close> and for
  float values of its keywords.)
\<close>

datatype note_class = Note_class | RestNote_class

fun new_note :: "note_class \<Rightarrow> attrs_arg \<Rightarrow> attr_map \<Rightarrow> int \<Rightarrow> error + Note" where
  "new_note Note_class given_attrs given_map given_row = Inl TypeError"
| "new_note RestNote_class given_attrs given_map given_row = Inl TypeError"

text \<open>
  \<open>Note.__getattr__\<close>: a name of the dictionary reads the array; any other name is looked
  up in \<open>__dict__\<close>, where the attributes of the model are not, so it is a \<open>KeyError\<close>.
\<close>

definition Note_getattr :: "Note \<Rightarrow> string \<Rightarrow> error + real" where
  "Note_getattr self attr_name =
     (case map_of (attr_name_idx_map self) attr_name of
        None \<Rightarrow> Inl KeyError
      | Some col \<Rightarrow>
          (case attrs self of
             Row r \<Rightarrow> if col < length r then Inr (r ! col) else Inl IndexError
           | Scalar v \<Rightarrow> Inl IndexError
           | NoteObj n \<Rightarrow> Inl TypeError
           | NoneObj \<Rightarrow> Inl TypeError))"

text \<open>
  \<open>Note.__setattr__\<close>: a name of the dictionary writes the array; any other name becomes
  a plain attribute of the object and leaves the array alone.
\<close>

definition Note_setattr :: "Note \<Rightarrow> string \<Rightarrow> real \<Rightarrow> error + Note" where
  "Note_setattr self attr_name attr_val =
     (case map_of (attr_name_idx_map self) attr_name of
        None \<Rightarrow> Inr self
      | Some col \<Rightarrow>
          (case attrs self of
             Row r \<Rightarrow>
               if col < length r
               then Inr (Note (Row (r[col := attr_val])) (attr_name_idx_map self) (row_num self))
               else Inl IndexError
           | Scalar v \<Rightarrow> Inl TypeError
           | NoteObj n \<Rightarrow> Inl TypeError
           | NoneObj \<Rightarrow> Inl TypeError))"

text \<open>
  The call \<open>note.as_list()\<close> of \<open>Measure._sort_notes_by_start_time\<close>.  No class of notes
  defines a method \<open>as_list\<close> (in note.py only \<open>NoteConfig\<close> has one), so the lookup of
  the name falls to \<open>Note.__getattr__\<close>: for a name outside the dictionary that is a
  \<open>KeyError\<close>, and for a name of the dictionary it is a number, which cannot be called.
  On \<open>None\<close> the lookup is an \<open>AttributeError\<close>.
\<close>

definition as_list :: "Note option \<Rightarrow> error + real list" where
  "as_list note =
     (case note of
        None \<Rightarrow> Inl AttributeError
      | Some n \<Rightarrow> bind_err (Note_getattr n ''as_list'') (\<lambda>v. Inl TypeError))"

section \<open>omnisound/note/containers/note_sequence.py: NoteSequence\<close>

text \<open>
  The fields of a sequence.  \<open>range_map\<close> stands for the attribute \<open>_range_map\<close>, which
  exists only once \<open>_update_range_map\<close> has found child sequences (\<open>None\<close>: not set).
  \<open>child_sequences\<close> is the constructor's optional list (a set of children, which the
  constructor also admits, cannot be subscripted and is left out).  \<open>max_index\<close> is a
  count: it starts at 0 and is only ever set to a sum of lengths.
\<close>

datatype NoteSequence = NoteSequence
  (note_cls: note_class)
  (note_attrs: ndarray)
  (attr_name_index_map: attr_map)
  (child_sequences: "NoteSequence list option")
  (index: int)
  (max_index: nat)
  (range_map: "(nat \<times> NoteSequence) list option")

definition set_note_attrs :: "ndarray \<Rightarrow> NoteSequence \<Rightarrow> NoteSequence" where
  "set_note_attrs a self =
     NoteSequence (note_cls self) a (attr_name_index_map self) (child_sequences self)
       (index self) (max_index self) (range_map self)"

definition set_index :: "int \<Rightarrow> NoteSequence \<Rightarrow> NoteSequence" where
  "set_index i self =
     NoteSequence (note_cls self) (note_attrs self) (attr_name_index_map self)
       (child_sequences self) i (max_index self) (range_map self)"

text \<open>\<open>__len__\<close>.\<close>

definition len_NoteSequence :: "NoteSequence \<Rightarrow> nat" where
  "len_NoteSequence self = max_index self"

text \<open>Assignment to a key of a dictionary: a key that is there keeps its place.\<close>

fun dict_set :: "('k \<times> 'v) list \<Rightarrow> 'k \<Rightarrow> 'v \<Rightarrow> ('k \<times> 'v) list" where
  "dict_set [] k v = [(k, v)]"
| "dict_set ((k', v') # d) k v = (if k' = k then (k, v) # d else (k', v') # dict_set d k v)"

text \<open>
  The loop of \<open>_update_range_map\<close> over its queue.  \<open>reversed(cur_seq.child_sequences)\<close>
  raises on a child built without a list of children.
\<close>

function process_queue ::
  "(nat \<times> NoteSequence) list \<Rightarrow> NoteSequence list \<Rightarrow> error + (nat \<times> NoteSequence) list" where
  "process_queue rm [] = Inr rm"
| "process_queue rm (cur_seq # child_seqs_queue) =
     (case py_index (map fst rm) (- 1) of
        Inl e \<Rightarrow> Inl e
      | Inr last_key \<Rightarrow>
          (case child_sequences cur_seq of
             None \<Rightarrow> Inl TypeError
           | Some children \<Rightarrow>
               process_queue (dict_set rm (last_key + len_NoteSequence cur_seq) cur_seq)
                 (children @ child_seqs_queue)))"
  by pat_completeness auto
termination
  apply (relation "measure (\<lambda>(rm, queue). size_list size queue)")
   apply simp
  subgoal for rm cur_seq child_seqs_queue last_key children
    by (cases cur_seq) simp
  done

definition update_range_map :: "NoteSequence \<Rightarrow> error + NoteSequence" where
  "update_range_map self =
     (case child_sequences self of
        None \<Rightarrow> Inr self
      | Some [] \<Rightarrow> Inr self
      | Some (c0 # cs) \<Rightarrow>
          bind_err
            (process_queue [(len_ndarray (note_attrs self) + len_NoteSequence c0, c0)] (c0 # cs))
            (\<lambda>rm. bind_err (py_index (map fst rm) (- 1))
               (\<lambda>last_key.
                  Inr (NoteSequence (note_cls self) (note_attrs self) (attr_name_index_map self)
                         (child_sequences self) (index self) last_key (Some rm)))))"

text \<open>\<open>__init__\<close>: the table of zeros, \<open>index = 0\<close>, \<open>max_index = 0\<close>, then the range map.\<close>

definition NoteSequence_init ::
  "note_class \<Rightarrow> nat \<Rightarrow> nat \<Rightarrow> attr_map \<Rightarrow> NoteSequence list option \<Rightarrow> error + NoteSequence" where
  "NoteSequence_init note_cls' num_notes num_attributes attr_name_index_map' child_sequences' =
     update_range_map
       (NoteSequence note_cls' (np_array num_notes num_attributes) attr_name_index_map'
          child_sequences' 0 0 None)"

text \<open>\<open>arr[i]\<close> on the table: a row of a two-dimensional array, a number of a flat one.\<close>

definition ndarray_getitem :: "ndarray \<Rightarrow> int \<Rightarrow> error + attrs_arg" where
  "ndarray_getitem a i =
     (case a of
        Arr1 xs \<Rightarrow> bind_err (py_index xs i) (\<lambda>v. Inr (Scalar v))
      | Arr2 c rs \<Rightarrow> bind_err (py_index rs i) (\<lambda>r. Inr (Row r)))"

definition attrs_of_result :: "Note option \<Rightarrow> attrs_arg" where
  "attrs_of_result r = (case r of None \<Rightarrow> NoneObj | Some n \<Rightarrow> NoteObj n)"

text \<open>
  \<open>_get_note_for_index\<close> and its loop over the keys of \<open>_range_map\<close>.  What it returns is
  what the call of \<open>note_cls\<close> returns.  In the loop the value of the dictionary is a
  child sequence, so \<open>note_attrs[adjusted_index]\<close> is the child's own \<open>__getitem__\<close>, and
  the note it returns is passed on as \<open>attrs\<close>.  When no key is above the index the method
  falls off its end and returns \<open>None\<close>.
\<close>

function get_note_for_index :: "NoteSequence \<Rightarrow> int \<Rightarrow> error + Note option"
  and scan_range_map ::
    "(nat \<times> NoteSequence) list \<Rightarrow> note_class \<Rightarrow> attr_map \<Rightarrow> int \<Rightarrow> int \<Rightarrow> error + Note option"
where
  "get_note_for_index self i =
     (if i \<ge> int (max_index self) then Inl ValueError
      else if i < int (len_ndarray (note_attrs self)) then
        bind_err (ndarray_getitem (note_attrs self) i)
          (\<lambda>a. bind_err (new_note (note_cls self) a (attr_name_index_map self) i)
             (\<lambda>n. Inr (Some n)))
      else
        (case range_map self of
           None \<Rightarrow> Inl AttributeError
         | Some rm \<Rightarrow>
             scan_range_map rm (note_cls self) (attr_name_index_map self) i
               (int (len_ndarray (note_attrs self)))))"
| "scan_range_map [] cls m i index_range_sum = Inr None"
| "scan_range_map ((index_range, child) # rest) cls m i index_range_sum =
     (if i < int index_range then
        bind_err (get_note_for_index child (i - index_range_sum))
          (\<lambda>r. bind_err (new_note cls (attrs_of_result r) m i) (\<lambda>n. Inr (Some n)))
      else scan_range_map rest cls m i (index_range_sum + int index_range))"
  by pat_completeness auto
termination
  apply (relation "measure (\<lambda>x. case x of
            Inl (self, i) \<Rightarrow> size self
          | Inr (rm, cls, m, i, s) \<Rightarrow> size_list (size_prod (\<lambda>_. 0) size) rm)")
     apply simp
  subgoal for self i rm by (cases self) simp
  subgoal by simp
  subgoal by simp
  done

text \<open>\<open>__getitem__\<close>.\<close>

definition getitem :: "NoteSequence \<Rightarrow> int \<Rightarrow> error + Note option" where
  "getitem self i = get_note_for_index self i"

text \<open>
  A comprehension \<open>[f(note) for note in self]\<close>: \<open>__iter__\<close> and \<open>__next__\<close> fetch the notes
  at 0, 1, ... until \<open>index\<close> meets \<open>max_index\<close>, and each note is used before the next one
  is fetched.
\<close>

definition for_each_note :: "NoteSequence \<Rightarrow> (Note option \<Rightarrow> error + 'a) \<Rightarrow> error + 'a list" where
  "for_each_note self f =
     map_err (\<lambda>i. bind_err (get_note_for_index self i) f) (map int [0 ..< max_index self])"

text \<open>
  \<open>append\<close>.  The shape of the table is compared with the shape of the note's array.
  When they are equal, \<open>resize\<close> is called as a method with the table itself as first
  dimension; its result \<open>None\<close> is stored as the table, so the subscript on the next
  line cannot succeed.
\<close>

fun attrs_shape :: "attrs_arg \<Rightarrow> error + nat list" where
  "attrs_shape (Row r) = Inr [length r]"
| "attrs_shape (Scalar v) = Inr []"
| "attrs_shape (NoteObj n) = Inl KeyError"
| "attrs_shape NoneObj = Inl AttributeError"

definition NoteSequence_append :: "NoteSequence \<Rightarrow> Note \<Rightarrow> error + NoteSequence" where
  "NoteSequence_append self note =
     bind_err (attrs_shape (attrs note))
       (\<lambda>note_shape.
          if shape (note_attrs self) \<noteq> note_shape then Inl NoteSequenceInvalidAppendException
          else
            (let new_note_idx = int (len_ndarray (note_attrs self)) in
             bind_err
               (ndarray_resize (note_attrs self)
                  [PyArray (note_attrs self), PyInt (new_note_idx + 1)])
               (\<lambda>none. Inl TypeError)))"

text \<open>\<open>extend\<close>.\<close>

definition NoteSequence_extend :: "NoteSequence \<Rightarrow> NoteSequence \<Rightarrow> error + NoteSequence" where
  "NoteSequence_extend self note_sequence =
     (if shape (note_attrs self) \<noteq> shape (note_attrs note_sequence)
      then Inl NoteSequenceInvalidAppendException
      else bind_err (np_concatenate (note_attrs self) (note_attrs note_sequence))
             (\<lambda>a. Inr (set_note_attrs a self)))"

text \<open>
  \<open>insert\<close> and \<open>remove\<close> take a note or a sequence.  For a note both read
  \<open>__dict__['attrs']\<close>, a key that \<open>Note\<close> does not set (its array is under \<open>'_attrs'\<close>).
  \<open>remove\<close> asks the first entry of a numpy array for \<open>row_num\<close>, which no array entry
  has, and it drops the result of \<open>np.delete\<close>.
\<close>

datatype note_or_sequence = IsNote Note | IsSequence NoteSequence

definition NoteSequence_insert :: "NoteSequence \<Rightarrow> int \<Rightarrow> note_or_sequence \<Rightarrow> error + NoteSequence" where
  "NoteSequence_insert self i to_add =
     (case to_add of
        IsNote n \<Rightarrow> Inl KeyError
      | IsSequence s \<Rightarrow>
          bind_err (np_insert (note_attrs self) i (note_attrs s))
            (\<lambda>a. Inr (set_note_attrs a self)))"

definition NoteSequence_remove :: "NoteSequence \<Rightarrow> note_or_sequence \<Rightarrow> error + NoteSequence" where
  "NoteSequence_remove self to_remove =
     (case to_remove of
        IsNote n \<Rightarrow> Inl KeyError
      | IsSequence s \<Rightarrow>
          bind_err (ndarray_getitem (note_attrs s) 0) (\<lambda>first. Inl AttributeError))"

section \<open>omnisound/note/containers/measure.py: Measure\<close>

text \<open>
  Modelled from the spec: the class \<open>Meter\<close> of \<open>omnisound.note.modifiers.meter\<close> is not
  among the sources.  \<open>Measure\<close> reads three things of it, taken here as given:
  \<open>beats_per_measure\<close>, the value of \<open>beat_note_dur\<close> and "the ordered list of beat start
  times within one measure", \<open>beat_start_times_secs\<close>.
\<close>

record MeasureMeter =
  meter_beats_per_measure :: int
  meter_beat_note_dur :: real
  beat_start_times_secs :: "real list"

text \<open>
  A \<open>Measure\<close> is a \<open>NoteSequence\<close> (the field \<open>seq\<close>) with a meter, the beat cursor,
  the start of the next note and the cached maximal duration.  Swing and performance
  attributes take no part in the methods below and are left out.
\<close>

record Measure =
  seq :: NoteSequence
  meter :: MeasureMeter
  beat :: int
  next_note_start :: real
  max_duration :: real

text \<open>
  Assignment to an attribute of the note \<open>self[i]\<close>.  The array of that note is the row
  that \<open>_get_note_for_index\<close> took from the table, so a name of the note's dictionary
  writes the cell of the table; on \<open>None\<close> the assignment is an \<open>AttributeError\<close>.
\<close>

fun set_cell :: "ndarray \<Rightarrow> int \<Rightarrow> nat \<Rightarrow> real \<Rightarrow> ndarray" where
  "set_cell (Arr2 c rs) i col v =
     (let k = nat (if i < 0 then int (length rs) + i else i)
      in Arr2 c (rs[k := (rs ! k)[col := v]]))"
| "set_cell (Arr1 xs) i col v = Arr1 xs"

definition view_setattr ::
  "NoteSequence \<Rightarrow> int \<Rightarrow> Note option \<Rightarrow> string \<Rightarrow> real \<Rightarrow> error + NoteSequence" where
  "view_setattr self i note attr_name attr_val =
     (case note of
        None \<Rightarrow> Inl AttributeError
      | Some n \<Rightarrow>
          (case map_of (attr_name_idx_map n) attr_name of
             None \<Rightarrow> Inr self
           | Some col \<Rightarrow>
               (case attrs n of
                  Row r \<Rightarrow>
                    if col < length r
                    then Inr (set_note_attrs (set_cell (note_attrs self) i col attr_val) self)
                    else Inl IndexError
                | Scalar v \<Rightarrow> Inl TypeError
                | NoteObj n' \<Rightarrow> Inl TypeError
                | NoneObj \<Rightarrow> Inl TypeError)))"

definition view_getattr :: "Note option \<Rightarrow> string \<Rightarrow> error + real" where
  "view_getattr note attr_name =
     (case note of None \<Rightarrow> Inl AttributeError | Some n \<Rightarrow> Note_getattr n attr_name)"

text \<open>
  \<open>_sort_notes_by_start_time\<close>.  \<open>sorted_notes.sort(key=lambda x: x[START_I])\<close> takes the
  key of every list before it sorts, and the sort is stable.
\<close>

definition sort_by_start :: "real list list \<Rightarrow> error + real list list" where
  "sort_by_start sorted_notes =
     (if list_all (\<lambda>x. START_I < length x) sorted_notes
      then Inr (sort_key (\<lambda>x. x ! START_I) sorted_notes)
      else Inl IndexError)"

text \<open>
  The loop that writes the sorted lists back.  In its first turn the inner loop reads
  \<open>self.attr_name_idx_map\<close>.  No class sets an attribute of that name (the constructor
  of \<open>NoteSequence\<close> sets \<open>attr_name_index_map\<close>, and \<open>NoteSequence\<close> has no
  \<open>__getattr__\<close>), so the first turn raises \<open>AttributeError\<close>; without a list to write
  back there is no turn.
\<close>

fun write_notes :: "NoteSequence \<Rightarrow> (nat \<times> real list) list \<Rightarrow> error + NoteSequence" where
  "write_notes self [] = Inr self"
| "write_notes self ((i, sorted_note) # rest) = Inl AttributeError"

definition sort_notes_by_start_time :: "NoteSequence \<Rightarrow> error + NoteSequence" where
  "sort_notes_by_start_time self =
     bind_err (for_each_note self as_list)
       (\<lambda>lists. bind_err (sort_by_start lists)
          (\<lambda>sorted_notes.
             write_notes (set_index (int (max_index self)) self) (enumerate 0 sorted_notes)))"

definition Measure_sort :: "Measure \<Rightarrow> error + Measure" where
  "Measure_sort self = bind_err (sort_notes_by_start_time (seq self)) (\<lambda>s. Inr (self\<lparr>seq := s\<rparr>))"

text \<open>
  \<open>__init__\<close>, for a meter that is passed in.  It calls the constructor of \<open>NoteSequence\<close>
  with the keywords \<open>attr_name_idx_map\<close> and \<open>attr_vals_defaults_map\<close>, which are not
  among the parameters of that constructor (it has \<open>attr_name_index_map\<close> and
  \<open>default_attr_vals_map\<close>): the call raises \<open>TypeError\<close>, and what follows it in
  \<open>__init__\<close> (the sort, then the fields of the measure) is not reached.
\<close>

definition NoteSequence_init_parameters :: "string list" where
  "NoteSequence_init_parameters =
     [''note_cls'', ''num_notes'', ''num_attributes'', ''attr_name_index_map'',
      ''default_attr_vals_map'', ''child_sequences'']"

definition Measure_init_keywords :: "string list" where
  "Measure_init_keywords =
     [''note_cls'', ''num_notes'', ''num_attributes'', ''attr_name_idx_map'',
      ''attr_vals_defaults_map'']"

definition Measure_init ::
  "note_class \<Rightarrow> nat \<Rightarrow> nat \<Rightarrow> attr_map \<Rightarrow> MeasureMeter \<Rightarrow> error + Measure" where
  "Measure_init note_cls' num_notes num_attributes attr_name_idx_map' meter' =
     (if list_all (\<lambda>keyword. keyword \<in> set NoteSequence_init_parameters) Measure_init_keywords
      then
        bind_err (NoteSequence_init note_cls' num_notes num_attributes attr_name_idx_map' None)
          (\<lambda>s. bind_err (sort_notes_by_start_time s)
             (\<lambda>s'. Inr \<lparr>seq = s', meter = meter', beat = 0, next_note_start = 0,
                      max_duration = real_of_int (meter_beats_per_measure meter')
                                     * meter_beat_note_dur meter'\<rparr>))
      else Inl TypeError)"

text \<open>Beat state management.\<close>

definition increment_beat :: "Measure \<Rightarrow> Measure" where
  "increment_beat self = self\<lparr>beat := min (beat self + 1) (meter_beats_per_measure (meter self))\<rparr>"

definition decrement_beat :: "Measure \<Rightarrow> Measure" where
  "decrement_beat self = self\<lparr>beat := max 0 (beat self - 1)\<rparr>"

datatype beat_call = IncrementBeat | DecrementBeat

fun beat_step :: "Measure \<Rightarrow> beat_call \<Rightarrow> Measure" where
  "beat_step self IncrementBeat = increment_beat self"
| "beat_step self DecrementBeat = decrement_beat self"

text \<open>The wrappers of the parent's methods: the parent's method, then the sort.\<close>

definition Measure_append :: "Measure \<Rightarrow> Note \<Rightarrow> error + Measure" where
  "Measure_append self note =
     bind_err (NoteSequence_append (seq self) note) (\<lambda>s. Measure_sort (self\<lparr>seq := s\<rparr>))"

definition Measure_extend :: "Measure \<Rightarrow> NoteSequence \<Rightarrow> error + Measure" where
  "Measure_extend self to_add =
     bind_err (NoteSequence_extend (seq self) to_add) (\<lambda>s. Measure_sort (self\<lparr>seq := s\<rparr>))"

definition Measure_insert :: "Measure \<Rightarrow> int \<Rightarrow> note_or_sequence \<Rightarrow> error + Measure" where
  "Measure_insert self i to_add =
     bind_err (NoteSequence_insert (seq self) i to_add) (\<lambda>s. Measure_sort (self\<lparr>seq := s\<rparr>))"

definition Measure_remove :: "Measure \<Rightarrow> note_or_sequence \<Rightarrow> error + Measure" where
  "Measure_remove self to_remove =
     bind_err (NoteSequence_remove (seq self) to_remove) (\<lambda>s. Measure_sort (self\<lparr>seq := s\<rparr>))"

text \<open>\<open>add_note_on_beat\<close>.\<close>

definition add_note_on_beat :: "Measure \<Rightarrow> Note \<Rightarrow> bool \<Rightarrow> error + Measure" where
  "add_note_on_beat self note increment_beat' =
     bind_err (py_index (beat_start_times_secs (meter self)) (beat self))
       (\<lambda>t. bind_err (Note_setattr note ''start'' t)
          (\<lambda>note1. bind_err (Measure_append self note1)
             (\<lambda>m1. bind_err (Measure_sort m1)
                (\<lambda>m2. Inr (if increment_beat' then increment_beat m2 else m2)))))"

text \<open>
  \<open>add_notes_on_beat\<close>.  The loop runs over the beat start times and stops at the first
  position that equals \<open>len(self)\<close>; \<open>to_add\<close> is read for its length only.
\<close>

fun assign_beats :: "NoteSequence \<Rightarrow> (nat \<times> real) list \<Rightarrow> error + NoteSequence" where
  "assign_beats self [] = Inr self"
| "assign_beats self ((i, beat_start_time) # rest) =
     (if i = len_NoteSequence self then Inr self
      else
        bind_err (getitem self (int i))
          (\<lambda>note. bind_err (view_setattr self (int i) note ''start'' beat_start_time)
             (\<lambda>self'. assign_beats self' rest)))"

definition add_notes_on_beat :: "Measure \<Rightarrow> NoteSequence \<Rightarrow> error + Measure" where
  "add_notes_on_beat self to_add =
     (if int (len_NoteSequence to_add) > meter_beats_per_measure (meter self) then Inl ValueError
      else
        bind_err (assign_beats (seq self) (enumerate 0 (beat_start_times_secs (meter self))))
          (\<lambda>s. Measure_sort (self\<lparr>seq := s\<rparr>)))"

text \<open>\<open>add_note_on_start\<close>.\<close>

definition add_note_on_start :: "Measure \<Rightarrow> Note \<Rightarrow> bool \<Rightarrow> error + Measure" where
  "add_note_on_start self note increment_start =
     bind_err (Note_getattr note ''dur'')
       (\<lambda>d. if next_note_start self + d > max_duration self then Inl ValueError
            else
              bind_err (Note_setattr note ''start'' (next_note_start self))
                (\<lambda>note1. bind_err (Measure_append self note1)
                   (\<lambda>m1. bind_err (Measure_sort m1)
                      (\<lambda>m2. if increment_start
                            then bind_err (Note_getattr note1 ''dur'')
                                   (\<lambda>d'. Inr (m2\<lparr>next_note_start := next_note_start m2 + d'\<rparr>))
                            else Inr m2))))"

text \<open>
  \<open>add_notes_on_start\<close>.  The notes of \<open>to_add\<close> are fetched from \<open>to_add\<close>: the
  assignment of \<open>start\<close> writes the table of \<open>to_add\<close>, and the note that is appended is the
  note after that assignment.
\<close>

fun place_notes :: "Measure \<Rightarrow> NoteSequence \<Rightarrow> int list \<Rightarrow> error + Measure" where
  "place_notes self to_add [] = Inr self"
| "place_notes self to_add (i # rest) =
     bind_err (get_note_for_index to_add i)
       (\<lambda>note. bind_err (view_setattr to_add i note ''start'' (next_note_start self))
          (\<lambda>to_add'. case note of
               None \<Rightarrow> Inl AttributeError
             | Some n \<Rightarrow>
                 bind_err (Note_setattr n ''start'' (next_note_start self))
                   (\<lambda>n'. bind_err (Measure_append self n')
                      (\<lambda>m1. bind_err (Note_getattr n' ''dur'')
                         (\<lambda>d. place_notes (m1\<lparr>next_note_start := next_note_start m1 + d\<rparr>)
                                to_add' rest)))))"

definition add_notes_on_start :: "Measure \<Rightarrow> NoteSequence \<Rightarrow> error + Measure" where
  "add_notes_on_start self to_add =
     bind_err (for_each_note to_add (\<lambda>note. view_getattr note ''dur''))
       (\<lambda>durs.
          if next_note_start self + sum_list durs > max_duration self then Inl ValueError
          else
            bind_err (place_notes self to_add (map int [0 ..< max_index to_add]))
              (\<lambda>m1. Measure_sort m1))"

text \<open>The structural mutations of a measure, as one type of calls.\<close>

datatype mutation =
    Append Note
  | Extend NoteSequence
  | Insert int note_or_sequence
  | Remove note_or_sequence
  | AddNoteOnBeat Note bool
  | AddNotesOnBeat NoteSequence
  | AddNoteOnStart Note bool
  | AddNotesOnStart NoteSequence

fun mutate :: "Measure \<Rightarrow> mutation \<Rightarrow> error + Measure" where
  "mutate self (Append note) = Measure_append self note"
| "mutate self (Extend to_add) = Measure_extend self to_add"
| "mutate self (Insert i to_add) = Measure_insert self i to_add"
| "mutate self (Remove to_remove) = Measure_remove self to_remove"
| "mutate self (AddNoteOnBeat note increment_beat') = add_note_on_beat self note increment_beat'"
| "mutate self (AddNotesOnBeat to_add) = add_notes_on_beat self to_add"
| "mutate self (AddNoteOnStart note increment_start) = add_note_on_start self note increment_start"
| "mutate self (AddNotesOnStart to_add) = add_notes_on_start self to_add"

text \<open>The start times a pass over the notes of a sequence reads, in iteration order.\<close>

definition starts_in_iteration_order :: "NoteSequence \<Rightarrow> error + real list" where
  "starts_in_iteration_order self = for_each_note self (\<lambda>note. view_getattr note ''start'')"

section \<open>Notions used to state the theorems\<close>

text \<open>What a call of \<open>quantize\<close> leaves: the notes of the sequence passed in, and the notes
  of the rescaled copy (none when no copy was made or the call raised).\<close>

definition passed_notes ::
  "error + (CSoundNote list \<times> CSoundNote list option) \<Rightarrow> CSoundNote list" where
  "passed_notes r = (case r of Inr (note_list, new) \<Rightarrow> note_list | _ \<Rightarrow> [])"

definition quantized_notes ::
  "error + (CSoundNote list \<times> CSoundNote list option) \<Rightarrow> CSoundNote list" where
  "quantized_notes r = (case r of Inr (note_list, Some new) \<Rightarrow> new | _ \<Rightarrow> [])"



text \<open>The meter of the tests: four quarter beats at 240 quarter notes per minute.\<close>

definition example_measure_meter :: MeasureMeter where
  "example_measure_meter =
     \<lparr>meter_beats_per_measure = 4, meter_beat_note_dur = 1 / 4,
      beat_start_times_secs = [0, 1 / 4, 1 / 2, 3 / 4]\<rparr>"

text \<open>A note of five attributes: instrument 1, start 0, duration 0.25, amplitude 100,
  pitch 9.01.\<close>

definition example_row_note :: Note where
  "example_row_note = Note (Row [1, 0, 1 / 4, 100, 901 / 100]) ATTR_NAME_IDX_MAP None"

text \<open>A sequence of three rows whose one child has two rows and an empty list of
  children, as the constructor builds it.\<close>

definition example_parent :: NoteSequence where
  "example_parent =
     NoteSequence RestNote_class (np_array 3 5) ATTR_NAME_IDX_MAP
       (Some [NoteSequence RestNote_class (np_array 2 5) ATTR_NAME_IDX_MAP (Some []) 0 0 None])
       0 3
       (Some [(3, NoteSequence RestNote_class (np_array 2 5) ATTR_NAME_IDX_MAP (Some []) 0 0
                    None)])"

text \<open>
  The state of a measure whose sequence is \<open>s\<close> and whose other fields are those that
  \<open>Measure.__init__\<close> assigns for the meter of the tests: beat 0, next start 0.0, a
  maximal duration of four quarter notes.
\<close>

definition measure_over :: "NoteSequence \<Rightarrow> Measure" where
  "measure_over s =
     \<lparr>seq = s, meter = example_measure_meter, beat = 0, next_note_start = 0, max_duration = 1\<rparr>"

text \<open>A measure over an empty table.\<close>

definition example_measure :: Measure where
  "example_measure =
     \<lparr>seq = NoteSequence RestNote_class (Arr1 []) ATTR_NAME_IDX_MAP None 0 0 None,
      meter = example_measure_meter, beat = 0, next_note_start = 0, max_duration = 1\<rparr>"

text \<open>The rows of a table, and the start times in the rows of the table of a sequence.\<close>

fun table_rows :: "ndarray \<Rightarrow> real list list" where
  "table_rows (Arr1 xs) = []"
| "table_rows (Arr2 c rs) = rs"

definition table_starts :: "NoteSequence \<Rightarrow> real list" where
  "table_starts s = map (\<lambda>r. r ! START_I) (table_rows (note_attrs s))"

text \<open>
  The sequence that \<open>NoteSequence(note_cls=RestNote, num_notes=n, num_attributes=5,
  attr_name_index_map=RestNote.ATTR_NAME_IDX_MAP)\<close> builds: \<open>n\<close> rows of zeros and no
  child sequences.  A sequence of two rows whose cells have been set, to notes that
  start at 0.75 and at 0.5.  And a sequence whose length is 5: five rows and one child
  with an empty list of children.
\<close>

definition example_rows :: "nat \<Rightarrow> NoteSequence" where
  "example_rows n = NoteSequence RestNote_class (np_array n 5) ATTR_NAME_IDX_MAP None 0 0 None"

definition example_to_add :: NoteSequence where
  "example_to_add =
     NoteSequence RestNote_class
       (Arr2 5 [[3, 3 / 4, 1 / 4, 100, 901 / 100], [4, 1 / 2, 1 / 4, 100, 901 / 100]])
       ATTR_NAME_IDX_MAP None 0 0 None"

definition example_five :: NoteSequence where
  "example_five =
     NoteSequence RestNote_class (np_array 5 5) ATTR_NAME_IDX_MAP
       (Some [NoteSequence RestNote_class (np_array 0 5) ATTR_NAME_IDX_MAP (Some []) 0 0 None])
       0 5
       (Some [(5, NoteSequence RestNote_class (np_array 0 5) ATTR_NAME_IDX_MAP (Some []) 0 0
                    None)])"

section \<open>General lemmas\<close>

lemma bind_err_Inr_iff:
  "bind_err r f = Inr y \<longleftrightarrow> (\<exists>x. r = Inr x \<and> f x = Inr y)"
  by (cases r) (simp_all add: bind_err_def)

lemma bind_err_Inr [simp]: "bind_err (Inr x) f = f x"
  by (simp add: bind_err_def)

lemma bind_err_Inl [simp]: "bind_err (Inl e) f = Inl e"
  by (simp add: bind_err_def)

lemma map_err_Inr_iff:
  "map_err f xs = Inr ys \<longleftrightarrow> list_all2 (\<lambda>x y. f x = Inr y) xs ys"
proof (induction xs arbitrary: ys)
  case Nil
  then show ?case by auto
next
  case (Cons x xs)
  show ?case
    by (cases ys) (auto simp add: bind_err_Inr_iff Cons.IH)
qed

lemma map_err_map:
  "(\<And>x. x \<in> set xs \<Longrightarrow> f x = Inr (g x)) \<Longrightarrow> map_err f xs = Inr (map g xs)"
  by (induction xs) simp_all

lemma map_err_bind_of:
  "map_err f xs = Inr zs \<Longrightarrow> map_err (\<lambda>x. bind_err (f x) g) xs = map_err g zs"
proof (induction xs arbitrary: zs)
  case Nil
  then show ?case by simp
next
  case (Cons x xs)
  then show ?case by (auto simp add: bind_err_Inr_iff)
qed

lemma map_err_bind_Inr_iff:
  "map_err (\<lambda>x. bind_err (f x) g) xs = Inr ys
     \<longleftrightarrow> (\<exists>zs. map_err f xs = Inr zs \<and> map_err g zs = Inr ys)"
proof (induction xs arbitrary: ys)
  case Nil
  then show ?case by auto
next
  case (Cons x xs)
  show ?case
    by (auto simp add: bind_err_Inr_iff Cons.IH)
qed

section \<open>aleatoric/measure.py: the enumeration and quantize\<close>

text \<open>
  C9 states that every member of the enumeration of beat note durations, WHOLE to
  SIXTYFOURTH, has a value \<open>1 / 2^k\<close> with \<open>0 \<le> k \<le> 6\<close>.  The code binds \<open>SIXTEENTH\<close> to
  0.00625, which is 1/160: it is not 1/16, it lies below 1/64 and is no power-of-two
  fraction at all.
\<close>

theorem NoteDur_sixteenth_not_power_of_two:
  "NoteDur_value SIXTEENTH = 1 / 160 \<and> NoteDur_value SIXTEENTH \<noteq> 1 / 16
   \<and> \<not> power_of_two_fraction (NoteDur_value SIXTEENTH)"
  by (simp add: power_of_two_fraction_def upt_rec)

lemma notes_duration_example: "notes_duration example_notes = 2"
  by (simp add: notes_duration_def example_notes_def example_note_def)

lemma quantize_example:
  "quantize example_meter example_notes 1 =
     Inr (example_notes, Some (map (quantize_note (1 / 2)) example_notes))"
  by (simp add: quantize_def notes_duration_example example_meter_def dup_def)

lemma quantize_example_values:
  "map cs_duration (quantized_notes (quantize example_meter example_notes 1))
     = [1 / 4, 1 / 4, 1 / 4, 1 / 4]"
  "map cs_start (quantized_notes (quantize example_meter example_notes 1))
     = [0, 0, 1 / 4, 1 / 2]"
  by (simp_all add: quantize_example quantized_notes_def)
     (simp_all add: example_notes_def example_note_def quantize_note_def Let_def)

lemma passed_example_values:
  "map cs_duration (passed_notes (quantize example_meter example_notes 1))
     = [1 / 2, 1 / 2, 1 / 2, 1 / 2]"
  "map cs_start (passed_notes (quantize example_meter example_notes 1))
     = [0, 1 / 4, 1 / 2, 3 / 4]"
  by (simp_all add: quantize_example passed_notes_def)
     (simp_all add: example_notes_def example_note_def)

text \<open>
  C3 states the rescaling rule of quantize and, as its instance, that four notes of
  duration 0.5 at starts 0, 0.25, 0.5, 0.75 quantized against a measure of 1.0 end with
  durations 0.375 and starts 0, 0.125, 0.375, 0.625.  On the code the durations sum to 2,
  the factor is 1/2, and the rescaled copy has durations 0.25 and starts 0, 0, 0.25, 0.5;
  the notes that were passed in keep durations 0.5 and their starts.  Neither is the
  claim's result.  And durations that sum to zero make the division raise.
\<close>

theorem quantize_example_counterexample:
  "map cs_duration (quantized_notes (quantize example_meter example_notes 1))
     = [1 / 4, 1 / 4, 1 / 4, 1 / 4]
   \<and> map cs_start (quantized_notes (quantize example_meter example_notes 1))
     = [0, 0, 1 / 4, 1 / 2]
   \<and> map cs_duration (passed_notes (quantize example_meter example_notes 1))
     = [1 / 2, 1 / 2, 1 / 2, 1 / 2]
   \<and> map cs_start (passed_notes (quantize example_meter example_notes 1))
     = [0, 1 / 4, 1 / 2, 3 / 4]
   \<and> quantize example_meter [] 1 = Inl ZeroDivisionError"
  by (simp add: quantize_example_values passed_example_values)
     (simp add: quantize_def example_meter_def notes_duration_def)

text \<open>
  C3 as amended: with quantizing enabled and durations whose sum is neither the measure
  duration nor zero, quantize leaves the notes passed in as they are and builds a copy in
  which, note by note in the original order, the duration is the old duration times
  \<open>measure_duration / sum\<close> and a start above 0 is moved by the change of the duration,
  a start of 0 staying at 0; for the four notes of the example the copy has durations
  0.25 and starts 0, 0, 0.25, 0.5.
\<close>

theorem quantize_rescales_copy:
  assumes "quantizing self"
    and "notes_duration note_list \<noteq> measure_duration"
    and "notes_duration note_list \<noteq> 0"
  shows "passed_notes (quantize self note_list measure_duration) = note_list
    \<and> length (quantized_notes (quantize self note_list measure_duration)) = length note_list
    \<and> (\<forall>i < length note_list.
          cs_duration (quantized_notes (quantize self note_list measure_duration) ! i)
            = cs_duration (note_list ! i) * (measure_duration / notes_duration note_list)
        \<and> cs_start (quantized_notes (quantize self note_list measure_duration) ! i)
            = (if cs_start (note_list ! i) > 0
               then cs_start (note_list ! i)
                    + (cs_duration (quantized_notes (quantize self note_list measure_duration) ! i)
                       - cs_duration (note_list ! i))
               else cs_start (note_list ! i)))
    \<and> map cs_duration (quantized_notes (quantize example_meter example_notes 1))
         = [1 / 4, 1 / 4, 1 / 4, 1 / 4]
    \<and> map cs_start (quantized_notes (quantize example_meter example_notes 1))
         = [0, 0, 1 / 4, 1 / 2]"
proof -
  have "map cs_duration (quantized_notes (quantize example_meter example_notes 1))
          = [1 / 4, 1 / 4, 1 / 4, 1 / 4]
        \<and> map cs_start (quantized_notes (quantize example_meter example_notes 1))
          = [0, 0, 1 / 4, 1 / 2]"
    by (simp add: quantize_example_values)
  with assms show ?thesis
    by (simp add: quantize_def quantized_notes_def passed_notes_def dup_def quantize_note_def
        Let_def)
qed

theorem quantize_rescales_copy_witness:
  "quantizing example_meter
   \<and> notes_duration example_notes \<noteq> 1
   \<and> notes_duration example_notes \<noteq> 0
   \<and> passed_notes (quantize example_meter example_notes 1) = example_notes
   \<and> cs_duration (quantized_notes (quantize example_meter example_notes 1) ! 1) = 1 / 2 * (1 / 2)
   \<and> cs_start (quantized_notes (quantize example_meter example_notes 1) ! 1) = 0"
proof -
  have q: "quantizing example_meter" by (simp add: example_meter_def)
  have n1: "notes_duration example_notes \<noteq> 1" by (simp add: notes_duration_example)
  have n0: "notes_duration example_notes \<noteq> 0" by (simp add: notes_duration_example)
  have i: "(1::nat) < length example_notes" by (simp add: example_notes_def)
  have e: "cs_duration (example_notes ! Suc 0) = 1 / 2" "cs_start (example_notes ! Suc 0) = 1 / 4"
    by (simp_all add: example_notes_def example_note_def)
  note t = quantize_rescales_copy [OF q n1 n0]
  from t have p: "passed_notes (quantize example_meter example_notes 1) = example_notes"
    by blast
  from t i have "cs_duration (quantized_notes (quantize example_meter example_notes 1) ! 1)
           = cs_duration (example_notes ! 1) * (1 / notes_duration example_notes)"
    by blast
  then have d: "cs_duration (quantized_notes (quantize example_meter example_notes 1) ! 1)
           = 1 / 2 * (1 / 2)"
    by (simp add: e notes_duration_example)
  from t i have "cs_start (quantized_notes (quantize example_meter example_notes 1) ! 1)
           = (if cs_start (example_notes ! 1) > 0
              then cs_start (example_notes ! 1)
                   + (cs_duration (quantized_notes (quantize example_meter example_notes 1) ! 1)
                      - cs_duration (example_notes ! 1))
              else cs_start (example_notes ! 1))"
    by blast
  with d have s: "cs_start (quantized_notes (quantize example_meter example_notes 1) ! 1) = 0"
    by (simp add: e)
  from q n1 n0 p d s show ?thesis by blast
qed








section \<open>omnisound: the beat cursor\<close>

lemma beat_step_meter: "meter (beat_step m c) = meter m"
  by (cases c) (simp_all add: increment_beat_def decrement_beat_def)

lemma beat_step_range:
  "0 \<le> beat m \<Longrightarrow> beat m \<le> meter_beats_per_measure (meter m) \<Longrightarrow>
   0 \<le> beat (beat_step m c) \<and> beat (beat_step m c) \<le> meter_beats_per_measure (meter m)"
  by (cases c) (simp_all add: increment_beat_def decrement_beat_def)

lemma foldl_beat_step_range:
  "0 \<le> beat m \<Longrightarrow> beat m \<le> meter_beats_per_measure (meter m) \<Longrightarrow>
   meter (foldl beat_step m calls) = meter m \<and> 0 \<le> beat (foldl beat_step m calls)
     \<and> beat (foldl beat_step m calls) \<le> meter_beats_per_measure (meter m)"
proof (induction calls arbitrary: m)
  case Nil
  then show ?case by simp
next
  case (Cons c calls)
  have "meter (beat_step m c) = meter m" by (rule beat_step_meter)
  moreover from Cons.prems have "0 \<le> beat (beat_step m c)
     \<and> beat (beat_step m c) \<le> meter_beats_per_measure (meter (beat_step m c))"
    using beat_step_range [of m c] beat_step_meter [of m c] by simp
  ultimately show ?case using Cons.IH [of "beat_step m c"] by simp
qed

text \<open>
  C8: whatever calls of \<open>increment_beat\<close> and \<open>decrement_beat\<close> follow one another, a
  beat cursor that is within \<open>[0, beats_per_measure]\<close> (it starts at 0) stays there; an
  increment at \<open>beats_per_measure\<close> leaves it there and a decrement at 0 leaves it at 0.
  The two methods have no raise: their models are total functions.
\<close>

theorem beat_cursor_saturates:
  assumes "0 \<le> beat m" and "beat m \<le> meter_beats_per_measure (meter m)"
  shows "0 \<le> beat (foldl beat_step m calls)
    \<and> beat (foldl beat_step m calls) \<le> meter_beats_per_measure (meter m)
    \<and> (beat m = meter_beats_per_measure (meter m)
         \<longrightarrow> beat (increment_beat m) = meter_beats_per_measure (meter m))
    \<and> (beat m = 0 \<longrightarrow> beat (decrement_beat m) = 0)"
  using foldl_beat_step_range [OF assms, of calls]
  by (simp add: increment_beat_def decrement_beat_def)

theorem beat_cursor_saturates_witness:
  "0 \<le> beat example_measure
   \<and> beat example_measure \<le> meter_beats_per_measure (meter example_measure)
   \<and> 0 \<le> beat (foldl beat_step example_measure
                 [IncrementBeat, IncrementBeat, IncrementBeat, IncrementBeat, IncrementBeat,
                  DecrementBeat])
   \<and> beat (foldl beat_step example_measure
             [IncrementBeat, IncrementBeat, IncrementBeat, IncrementBeat, IncrementBeat,
              DecrementBeat]) \<le> 4
   \<and> beat (decrement_beat example_measure) = 0"
proof -
  have lo: "0 \<le> beat example_measure" by (simp add: example_measure_def)
  have hi: "beat example_measure \<le> meter_beats_per_measure (meter example_measure)"
    by (simp add: example_measure_def example_measure_meter_def)
  show ?thesis
    using lo hi
      beat_cursor_saturates [OF lo hi,
        of "[IncrementBeat, IncrementBeat, IncrementBeat, IncrementBeat, IncrementBeat,
             DecrementBeat]"]
    by (simp add: example_measure_def example_measure_meter_def)
qed

section \<open>omnisound: NoteSequence\<close>

lemma set_note_attrs_simps [simp]:
  "note_cls (set_note_attrs a self) = note_cls self"
  "note_attrs (set_note_attrs a self) = a"
  "attr_name_index_map (set_note_attrs a self) = attr_name_index_map self"
  "child_sequences (set_note_attrs a self) = child_sequences self"
  "index (set_note_attrs a self) = index self"
  "max_index (set_note_attrs a self) = max_index self"
  "range_map (set_note_attrs a self) = range_map self"
  by (simp_all add: set_note_attrs_def)

lemma set_index_simps [simp]:
  "note_cls (set_index k self) = note_cls self"
  "note_attrs (set_index k self) = note_attrs self"
  "attr_name_index_map (set_index k self) = attr_name_index_map self"
  "child_sequences (set_index k self) = child_sequences self"
  "index (set_index k self) = k"
  "max_index (set_index k self) = max_index self"
  "range_map (set_index k self) = range_map self"
  by (simp_all add: set_index_def)

lemma init_leaf:
  "NoteSequence_init cls n c m None = Inr (NoteSequence cls (np_array n c) m None 0 0 None)"
  "NoteSequence_init cls n c m (Some [])
     = Inr (NoteSequence cls (np_array n c) m (Some []) 0 0 None)"
  by (simp_all add: NoteSequence_init_def update_range_map_def)

lemma example_parent_init:
  "bind_err (NoteSequence_init RestNote_class 2 5 ATTR_NAME_IDX_MAP (Some []))
     (\<lambda>child. NoteSequence_init RestNote_class 3 5 ATTR_NAME_IDX_MAP (Some [child]))
   = Inr example_parent"
  by (simp add: init_leaf)
     (simp add: NoteSequence_init_def update_range_map_def py_index_def
        len_NoteSequence_def np_array_def example_parent_def)

lemma example_rows_init:
  "NoteSequence_init RestNote_class n 5 ATTR_NAME_IDX_MAP None = Inr (example_rows n)"
  by (simp add: init_leaf example_rows_def)

text \<open>
  C2 states that \<open>len\<close> of a sequence is the number of its own rows plus the flattened
  sizes of its children, and the number of its own rows when it has no children.  On the
  code a sequence of one row without children has length 0; the example of the comment
  in \<open>_update_range_map\<close> (ten rows, children of eleven and twelve rows, last key 33)
  has length 10, because its children have length 0; and when the two children are given
  an empty child each, so that their own lengths are 11 and 12, the length is 44: the
  first child is counted twice.
\<close>

theorem len_ignores_own_rows:
  "map_sum id len_NoteSequence (NoteSequence_init RestNote_class 1 5 ATTR_NAME_IDX_MAP None)
     = Inr 0
   \<and> bind_err (NoteSequence_init RestNote_class 11 5 ATTR_NAME_IDX_MAP (Some []))
        (\<lambda>child_1. bind_err (NoteSequence_init RestNote_class 12 5 ATTR_NAME_IDX_MAP (Some []))
           (\<lambda>child_2. map_sum id len_NoteSequence
                         (NoteSequence_init RestNote_class 10 5 ATTR_NAME_IDX_MAP
                            (Some [child_1, child_2]))))
      = Inr 10
   \<and> bind_err (NoteSequence_init RestNote_class 0 5 ATTR_NAME_IDX_MAP (Some []))
        (\<lambda>leaf. bind_err (NoteSequence_init RestNote_class 11 5 ATTR_NAME_IDX_MAP (Some [leaf]))
           (\<lambda>child_1. bind_err
                (NoteSequence_init RestNote_class 12 5 ATTR_NAME_IDX_MAP (Some [leaf]))
              (\<lambda>child_2. map_sum id
                   (\<lambda>s. (len_NoteSequence child_1, len_NoteSequence child_2, len_NoteSequence s))
                   (NoteSequence_init RestNote_class 10 5 ATTR_NAME_IDX_MAP
                      (Some [child_1, child_2])))))
      = Inr (11, 12, 44)"
  by code_simp

lemma NoteSequence_append_raises: "\<exists>e. NoteSequence_append self note = Inl e"
  by (cases "attrs note")
     (simp_all add: NoteSequence_append_def ndarray_resize_def Let_def)

text \<open>
  C5 states that \<open>append\<close> of a note with as many attributes as the sequence has columns
  adds one row holding the note's values, and that it fails exactly when the counts
  differ.  On the code a sequence of one row and five columns refuses a note of five
  attributes, because a shape of two dimensions is compared with a shape of one; and
  where the shapes agree (an empty table, a note without attributes) the call of
  \<open>resize\<close> raises.
\<close>

theorem append_equal_columns_raises:
  "bind_err (NoteSequence_init RestNote_class 1 5 ATTR_NAME_IDX_MAP None)
     (\<lambda>s. NoteSequence_append s example_row_note) = Inl NoteSequenceInvalidAppendException
   \<and> bind_err (NoteSequence_init RestNote_class 0 0 [] None)
     (\<lambda>s. NoteSequence_append s (Note (Row []) [] None)) = Inl TypeError"
  by (simp add: init_leaf NoteSequence_append_def example_row_note_def np_array_def
      ndarray_resize_def)

section \<open>omnisound: lookup of notes\<close>

text \<open>No class of notes among the sources can be instantiated.\<close>

lemma new_note_raises: "new_note cls a m row = Inl TypeError"
  by (cases cls) simp_all

lemma getitem_out_of_range: "int (max_index self) \<le> i \<Longrightarrow> getitem self i = Inl ValueError"
  by (simp add: getitem_def)

text \<open>
  For an index within the own rows the one thing read from the table is the entry at
  that index, and it goes to the call of \<open>note_cls\<close>, which decides the result.
\<close>

lemma getitem_reads_own_row:
  assumes "0 \<le> i" and "i < int (len_ndarray (note_attrs self))" and "i < int (max_index self)"
  shows "getitem self i =
     bind_err
       (new_note (note_cls self)
          (case note_attrs self of Arr2 c rs \<Rightarrow> Row (rs ! nat i) | Arr1 xs \<Rightarrow> Scalar (xs ! nat i))
          (attr_name_index_map self) i)
       (\<lambda>n. Inr (Some n))"
  using assms
  by (cases "note_attrs self") (simp_all add: getitem_def ndarray_getitem_def py_index_def)

text \<open>
  C10 states that \<open>__getitem__\<close> raises the out-of-range error whenever the index is at
  least \<open>max_index\<close>, and that for an index from 0 below both the number of own rows and
  \<open>max_index\<close> it returns a note on row \<open>index\<close> of the sequence's own table.  The first
  half holds.  For the second, the code reads row \<open>index\<close> and calls \<open>note_cls\<close> on it, and
  with the classes of notes there are that call raises \<open>TypeError\<close>: no note comes back.
\<close>

theorem getitem_own_row_raises:
  "(int (max_index self) \<le> i \<longrightarrow> getitem self i = Inl ValueError)
   \<and> (0 \<le> i \<and> i < int (len_ndarray (note_attrs self)) \<and> i < int (max_index self) \<longrightarrow>
        getitem self i = Inl TypeError)"
  by (cases "note_attrs self")
     (auto simp add: getitem_def ndarray_getitem_def py_index_def new_note_raises)

theorem getitem_own_row_raises_witness:
  "bind_err (NoteSequence_init RestNote_class 2 5 ATTR_NAME_IDX_MAP (Some []))
     (\<lambda>child. NoteSequence_init RestNote_class 3 5 ATTR_NAME_IDX_MAP (Some [child]))
   = Inr example_parent
   \<and> max_index example_parent = 3 \<and> len_ndarray (note_attrs example_parent) = 3
   \<and> getitem example_parent 3 = Inl ValueError
   \<and> getitem example_parent 1 = Inl TypeError"
  using getitem_own_row_raises [of example_parent 3] getitem_own_row_raises [of example_parent 1]
    example_parent_init
  by (simp add: example_parent_def np_array_def)

declare get_note_for_index.simps [simp del]

lemma for_each_note_empty: "max_index self = 0 \<Longrightarrow> for_each_note self f = Inr []"
  by (simp add: for_each_note_def)

text \<open>The list of a note is never had: whatever the note, \<open>as_list\<close> raises.\<close>

lemma as_list_raises: "\<exists>e. as_list r = Inl e"
proof (cases r)
  case None
  then show ?thesis by (simp add: as_list_def)
next
  case (Some n)
  then show ?thesis
    by (cases "Note_getattr n ''as_list''") (simp_all add: as_list_def)
qed

lemma for_each_note_as_list_raises:
  assumes "0 < max_index self"
  shows "\<exists>e. for_each_note self as_list = Inl e"
proof -
  from assms have u: "map int [0 ..< max_index self] = 0 # map int [Suc 0 ..< max_index self]"
    by (simp add: upt_conv_Cons)
  have "\<exists>e. bind_err (get_note_for_index self 0) as_list = Inl e"
  proof (cases "get_note_for_index self 0")
    case (Inl e)
    then show ?thesis by simp
  next
    case (Inr r)
    with as_list_raises [of r] show ?thesis by simp
  qed
  then show ?thesis by (auto simp add: for_each_note_def u)
qed

section \<open>omnisound: the sort of a measure\<close>

text \<open>
  The sort returns on the sequences of length 0 only, and there it reads no note and
  moves no row: it leaves the sequence as it is, with \<open>index\<close> back at 0.
\<close>

lemma sort_Inr_iff:
  "sort_notes_by_start_time self = Inr s \<longleftrightarrow> max_index self = 0 \<and> s = set_index 0 self"
proof (cases "max_index self = 0")
  case True
  then show ?thesis
    by (auto simp add: sort_notes_by_start_time_def for_each_note_empty sort_by_start_def)
next
  case False
  then have "0 < max_index self" by simp
  from for_each_note_as_list_raises [OF this] obtain e where
    "for_each_note self as_list = Inl e" by blast
  with False show ?thesis by (simp add: sort_notes_by_start_time_def)
qed

lemma Measure_sort_Inr_iff:
  "Measure_sort self = Inr self'
     \<longleftrightarrow> max_index (seq self) = 0 \<and> self' = self\<lparr>seq := set_index 0 (seq self)\<rparr>"
  by (auto simp add: Measure_sort_def bind_err_Inr_iff sort_Inr_iff)

lemma starts_empty: "max_index self = 0 \<Longrightarrow> starts_in_iteration_order self = Inr []"
  by (simp add: starts_in_iteration_order_def for_each_note_empty)

section \<open>omnisound: Measure\<close>

text \<open>The constructor of a measure raises for every list of arguments.\<close>

lemma Measure_init_raises: "Measure_init cls num_notes num_attributes m mt = Inl TypeError"
  by (simp add: Measure_init_def NoteSequence_init_parameters_def Measure_init_keywords_def)

lemma Measure_append_raises: "\<exists>e. Measure_append self nt = Inl e"
  using NoteSequence_append_raises [of "seq self" nt]
  by (auto simp add: Measure_append_def)

lemma NoteSequence_remove_raises: "\<exists>e. NoteSequence_remove self to_remove = Inl e"
  by (cases to_remove)
     (auto simp add: NoteSequence_remove_def bind_err_def split: sum.splits)

lemma add_note_on_start_over_budget:
  "Note_getattr note ''dur'' = Inr d \<Longrightarrow> next_note_start self + d > max_duration self \<Longrightarrow>
   add_note_on_start self note increment_start = Inl ValueError"
  by (simp add: add_note_on_start_def)

lemma add_note_on_start_raises: "\<exists>e. add_note_on_start self note increment_start = Inl e"
proof (cases "add_note_on_start self note increment_start")
  case (Inl e)
  then show ?thesis by simp
next
  case (Inr m)
  then obtain n m' where "Measure_append self n = Inr m'"
    by (auto simp add: add_note_on_start_def bind_err_Inr_iff split: if_splits)
  with Measure_append_raises [of self n] show ?thesis by simp
qed

lemma example_row_note_dur: "Note_getattr example_row_note ''dur'' = Inr (1 / 4)"
  by (simp add: Note_getattr_def example_row_note_def ATTR_NAME_IDX_MAP_def ATTR_NAMES_def
      enumerate_eq_zip upt_rec)

lemma add_note_on_start_example:
  "add_note_on_start example_measure example_row_note True
     = Inl NoteSequenceInvalidAppendException"
  by (simp add: add_note_on_start_def example_row_note_dur)
     (simp add: example_measure_def Note_setattr_def example_row_note_def ATTR_NAME_IDX_MAP_def
        ATTR_NAMES_def enumerate_eq_zip Measure_append_def NoteSequence_append_def upt_rec)

text \<open>
  C4 states that \<open>add_note_on_start\<close> raises \<open>ValueError\<close> and changes nothing when the
  note does not fit the budget, and that for a note within the budget it sets the note's
  start, appends the note and advances \<open>next_note_start\<close> when asked to.  On the code no
  call of \<open>add_note_on_start\<close> returns, whatever the measure and the note: a note within
  the budget reaches \<open>append\<close>, which raises.  So a measure over an empty table, with a
  budget of 1.0 and the next start at 0, refuses a note of duration 0.25 with the
  exception of \<open>NoteSequence.append\<close>.
\<close>

theorem add_note_on_start_in_budget_raises:
  "(\<exists>e. add_note_on_start self note increment_start = Inl e)
   \<and> add_note_on_start example_measure example_row_note True
       = Inl NoteSequenceInvalidAppendException
   \<and> (next_note_start example_measure, Note_getattr example_row_note ''dur'',
        max_duration example_measure) = (0, Inr (1 / 4), 1)"
  using add_note_on_start_raises [of self "note" increment_start]
  by (simp add: add_note_on_start_example example_row_note_dur)
     (simp add: example_measure_def)

section \<open>omnisound: add_notes_on_beat\<close>

lemma view_setattr_fields:
  "view_setattr self i note attr_name v = Inr self' \<Longrightarrow> max_index self' = max_index self"
  by (auto simp add: view_setattr_def split: option.splits attrs_arg.splits if_splits)

lemma assign_beats_fields:
  "assign_beats self ps = Inr self' \<Longrightarrow> max_index self' = max_index self"
proof (induction ps arbitrary: self)
  case Nil
  then show ?case by simp
next
  case (Cons p ps)
  obtain i t where p: "p = (i, t)" by (cases p)
  show ?case
  proof (cases "i = len_NoteSequence self")
    case True
    with Cons.prems p show ?thesis by simp
  next
    case False
    with Cons.prems p obtain nt self1 where
      "view_setattr self (int i) nt ''start'' t = Inr self1"
      and "assign_beats self1 ps = Inr self'"
      by (auto simp add: bind_err_Inr_iff)
    with Cons.IH [of self1] view_setattr_fields [of self "int i" nt "''start''" t self1]
    show ?thesis by simp
  qed
qed

lemma assign_beats_empty:
  "max_index self = 0 \<Longrightarrow> assign_beats self (enumerate 0 ts) = Inr self"
  by (cases ts) (simp_all add: len_NoteSequence_def)

text \<open>
  Whenever \<open>add_notes_on_beat\<close> returns, the measure has length 0 and comes back with
  its table as it was: no start time has been written.
\<close>

lemma add_notes_on_beat_Inr:
  assumes "add_notes_on_beat self to_add = Inr self'"
  shows "max_index (seq self) = 0 \<and> self' = self\<lparr>seq := set_index 0 (seq self)\<rparr>"
proof -
  from assms obtain s where
    a: "assign_beats (seq self) (enumerate 0 (beat_start_times_secs (meter self))) = Inr s"
    and "Measure_sort (self\<lparr>seq := s\<rparr>) = Inr self'"
    by (auto simp add: add_notes_on_beat_def bind_err_Inr_iff split: if_splits)
  then have z: "max_index s = 0" and r: "self' = self\<lparr>seq := set_index 0 s\<rparr>"
    by (simp_all add: Measure_sort_Inr_iff)
  from a z have m: "max_index (seq self) = 0"
    using assign_beats_fields [of "seq self" _ s] by simp
  with a have "s = seq self" by (simp add: assign_beats_empty)
  with m r show ?thesis by simp
qed

lemma add_notes_on_beat_empty:
  assumes "max_index (seq self) = 0"
    and "int (len_NoteSequence to_add) \<le> meter_beats_per_measure (meter self)"
  shows "add_notes_on_beat self to_add = Inr (self\<lparr>seq := set_index 0 (seq self)\<rparr>)"
  using assms
  by (simp add: add_notes_on_beat_def assign_beats_empty Measure_sort_Inr_iff)

lemma measure_over_rows_index:
  "(measure_over (example_rows n))\<lparr>seq := set_index 0 (seq (measure_over (example_rows n)))\<rparr>
     = measure_over (example_rows n)"
  by (simp add: measure_over_def example_rows_def set_index_def)

lemma table_starts_rows: "table_starts (example_rows 4) = [0, 0, 0, 0]"
  by (simp add: table_starts_def example_rows_def np_array_def START_I_def eval_nat_numeral)

text \<open>
  C6 states that \<open>add_notes_on_beat\<close>, for a sequence of at most \<open>beats_per_measure\<close>
  notes, replaces the start times of the measure's notes by the beat start times, in
  order, without adding rows, and that it raises \<open>ValueError\<close> for a longer sequence.
  The second half holds.  For the first, on the code a measure of four rows, as the
  constructor of the sequence lays them out, with the beats 0, 0.25, 0.5 and 0.75, comes
  back from the call as it went in: the length of the measure is 0, the loop stops
  before its first assignment, and the four start times are 0 as before.
\<close>

theorem add_notes_on_beat_writes_no_start:
  "NoteSequence_init RestNote_class 4 5 ATTR_NAME_IDX_MAP None = Inr (example_rows 4)
   \<and> int (len_NoteSequence example_to_add)
       \<le> meter_beats_per_measure (meter (measure_over (example_rows 4)))
   \<and> beat_start_times_secs (meter (measure_over (example_rows 4))) = [0, 1 / 4, 1 / 2, 3 / 4]
   \<and> add_notes_on_beat (measure_over (example_rows 4)) example_to_add
       = Inr (measure_over (example_rows 4))
   \<and> table_starts (seq (measure_over (example_rows 4))) = [0, 0, 0, 0]
   \<and> len_NoteSequence (seq (measure_over (example_rows 4))) = 0
   \<and> add_notes_on_beat (measure_over (example_rows 4)) example_five = Inl ValueError"
proof -
  have z: "max_index (seq (measure_over (example_rows 4))) = 0"
    by (simp add: measure_over_def example_rows_def)
  have l: "int (len_NoteSequence example_to_add)
             \<le> meter_beats_per_measure (meter (measure_over (example_rows 4)))"
    by (simp add: len_NoteSequence_def example_to_add_def measure_over_def
        example_measure_meter_def)
  have b: "beat_start_times_secs (meter (measure_over (example_rows 4)))
             = [0, 1 / 4, 1 / 2, 3 / 4]"
    by (simp add: measure_over_def example_measure_meter_def)
  have r: "add_notes_on_beat (measure_over (example_rows 4)) example_to_add
             = Inr (measure_over (example_rows 4))"
    using add_notes_on_beat_empty [OF z l] by (simp add: measure_over_rows_index)
  have t: "table_starts (seq (measure_over (example_rows 4))) = [0, 0, 0, 0]"
    by (simp add: measure_over_def table_starts_rows)
  have v: "add_notes_on_beat (measure_over (example_rows 4)) example_five = Inl ValueError"
    by (simp add: add_notes_on_beat_def len_NoteSequence_def example_five_def measure_over_def
        example_measure_meter_def)
  from z l b r t v show ?thesis
    by (simp add: example_rows_init len_NoteSequence_def)
qed

section \<open>omnisound: the sort invariant of a measure\<close>

lemma place_notes_returns:
  "place_notes self to_add idxs = Inr m1 \<Longrightarrow> m1 = self"
proof (cases idxs)
  case Nil
  then show "place_notes self to_add idxs = Inr m1 \<Longrightarrow> m1 = self" by simp
next
  case (Cons i rest)
  assume "place_notes self to_add idxs = Inr m1"
  with Cons obtain n m' where "Measure_append self n = Inr m'"
    by (auto simp add: bind_err_Inr_iff split: option.splits)
  with Measure_append_raises [of self n] show "m1 = self" by simp
qed

text \<open>
  Every mutation that returns has ended in a sort that returned: the measure it leaves
  has length 0, so a pass over its notes visits none of the rows of its table.
\<close>

lemma mutate_Inr_length:
  assumes "mutate self call = Inr self'"
  shows "max_index (seq self') = 0"
proof (cases call)
  case (Append nt)
  with assms Measure_append_raises [of self nt] show ?thesis by simp
next
  case (Extend to_add)
  with assms show ?thesis
    by (auto simp add: Measure_extend_def bind_err_Inr_iff Measure_sort_Inr_iff)
next
  case (Insert i to_add)
  with assms show ?thesis
    by (auto simp add: Measure_insert_def bind_err_Inr_iff Measure_sort_Inr_iff)
next
  case (Remove to_remove)
  with assms NoteSequence_remove_raises [of "seq self" to_remove] show ?thesis
    by (auto simp add: Measure_remove_def bind_err_Inr_iff)
next
  case (AddNoteOnBeat nt inc)
  with assms obtain n m' where "Measure_append self n = Inr m'"
    by (auto simp add: add_note_on_beat_def bind_err_Inr_iff)
  with Measure_append_raises [of self n] show ?thesis by simp
next
  case (AddNotesOnBeat to_add)
  with assms add_notes_on_beat_Inr [of self to_add self'] show ?thesis by simp
next
  case (AddNoteOnStart nt inc)
  with assms add_note_on_start_raises [of self nt inc] show ?thesis by simp
next
  case (AddNotesOnStart to_add)
  with assms obtain m1 where "Measure_sort m1 = Inr self'"
    by (auto simp add: add_notes_on_start_def bind_err_Inr_iff split: if_splits)
  then show ?thesis by (simp add: Measure_sort_Inr_iff)
qed

lemma mutate_Inr_no_note:
  "mutate self call = Inr self' \<Longrightarrow> starts_in_iteration_order (seq self') = Inr []"
  by (simp add: mutate_Inr_length starts_empty)

text \<open>What \<open>extend\<close> leaves of a measure of length 0: the rows as concatenated.\<close>

lemma Measure_extend_Inr:
  assumes "Measure_extend self to_add = Inr self'"
  shows "np_concatenate (note_attrs (seq self)) (note_attrs to_add)
           = Inr (note_attrs (seq self'))"
proof -
  from assms obtain s where e: "NoteSequence_extend (seq self) to_add = Inr s"
    and "Measure_sort (self\<lparr>seq := s\<rparr>) = Inr self'"
    by (auto simp add: Measure_extend_def bind_err_Inr_iff)
  then have "note_attrs (seq self') = note_attrs s"
    by (simp add: Measure_sort_Inr_iff)
  with e show ?thesis
    by (auto simp add: NoteSequence_extend_def bind_err_Inr_iff split: if_splits)
qed



end
